theory Spec2Isabelle
  imports Complex_Main
begin

section \<open>ProveX sacrifice calculator: rate schedule and points derivation\<close>

text \<open>
  The page component of \<^verbatim>\<open>src/app/layout.tsx\<close> holds the whole core: the schedule
  function \<^verbatim>\<open>computeRateForDate\<close>, the points derivation inside the \<^verbatim>\<open>useMemo\<close>
  closure of \<^verbatim>\<open>HomePage\<close>, and the two handlers that copy a schedule rate into the
  rate field.

  Numbers. A JavaScript number is an IEEE double. The model idealises every finite
  double as the exact rational it denotes and every arithmetic operation as the exact
  operation, so rounding error of \<^verbatim>\<open>Math.pow\<close>, of the decimal literals
  \<^verbatim>\<open>10.0115\<close> and of multiplication and division is not modelled. The non-finite values
  that the points derivation can meet (the result of \<^verbatim>\<open>parseFloat\<close>) are kept as
  constructors of their own. Signed zeros are identified.

  Strings. A JavaScript string is a sequence of UTF-16 code units; the model uses
  \<^typ>\<open>string\<close>, whose characters are 8-bit. Every character the date and number
  grammars look at is ASCII.
\<close>

subsection \<open>Schedule constants\<close>

text \<open>\<^verbatim>\<open>const BASE_RATE = 1; const DAILY_DECAY = 0.0625; const MAX_RATE = 10.0115;\<close>\<close>

definition BASE_RATE :: rat where
  "BASE_RATE = 1"

definition DAILY_DECAY :: rat where
  "DAILY_DECAY = 625 / 10000"

definition MAX_RATE :: rat where
  "MAX_RATE = 100115 / 10000"

text \<open>
  A \<^verbatim>\<open>Date\<close> is its time value: milliseconds since 1970-01-01T00:00:00Z, an integer, or
  \<^verbatim>\<open>NaN\<close> for an invalid date, which is \<^const>\<open>None\<close> here. The three dates of the
  schedule are written in the full ISO format, which every engine reads alike; they are
  given by their time values (see \<open>schedule_dates\<close> below for the link with the parser).
\<close>

definition msPerDay :: int where
  "msPerDay = 1000 * 60 * 60 * 24"

definition START_DATE :: int where
  \<comment> \<open>\<^verbatim>\<open>new Date("2025-11-11T00:00:00Z")\<close>\<close>
  "START_DATE = 1762819200000"

definition BASE_END_DATE :: int where
  \<comment> \<open>\<^verbatim>\<open>new Date("2025-12-02T00:00:00Z")\<close>, the last day at the base rate\<close>
  "BASE_END_DATE = 1764633600000"

definition END_DATE :: int where
  \<comment> \<open>\<^verbatim>\<open>new Date("2026-01-09T00:00:00Z")\<close>, the final day\<close>
  "END_DATE = 1767916800000"

subsection \<open>The schedule function\<close>

text \<open>
  \<^verbatim>\<open>computeRateForDate(dateStr: string): number | null\<close>. The \<^verbatim>\<open>Date\<close> constructor
  is the engine's, and what it does with a string outside the ISO format is left to the
  engine by the language standard; the function therefore takes the constructor as its
  first argument: \<open>newDate s\<close> is the time value of \<^verbatim>\<open>new Date(s)\<close>.
  \<^verbatim>\<open>null\<close> is \<^const>\<open>None\<close>. Comparing two dates with \<^verbatim>\<open><\<close>, \<^verbatim>\<open>>\<close>, \<^verbatim>\<open><=\<close> compares
  their time values. \<^verbatim>\<open>Math.floor\<close> of the quotient of two integers is \<open>div\<close>, and
  \<^verbatim>\<open>Math.pow\<close> with an integer exponent is \<open>powi\<close>.
\<close>

definition computeRateForDate :: "(string \<Rightarrow> int option) \<Rightarrow> string \<Rightarrow> rat option" where
  "computeRateForDate newDate dateStr =
     (if dateStr = [] then None
      else
        (case newDate (dateStr @ ''T00:00:00Z'') of
           None \<Rightarrow> None
         | Some d \<Rightarrow>
             if d < START_DATE then Some BASE_RATE
             else if d > END_DATE then Some MAX_RATE
             else if d \<le> BASE_END_DATE then Some BASE_RATE
             else
               (let decayDays = (d - BASE_END_DATE) div msPerDay;
                    newRate = BASE_RATE * ((1 + DAILY_DECAY) powi decayDays)
                in Some (if newRate > MAX_RATE then MAX_RATE else newRate))))"

subsection \<open>Reading a date string\<close>

text \<open>
  The standard's date-time string format, for the strings this program builds: a date
  followed by \<^verbatim>\<open>T00:00:00Z\<close>. The date is \<^verbatim>\<open>YYYY\<close>, \<^verbatim>\<open>YYYY-MM\<close> or \<^verbatim>\<open>YYYY-MM-DD\<close>,
  the year four digits or a sign and six digits (not \<^verbatim>\<open>-000000\<close>), the month 01 to 12,
  the day 01 to the length of the month. A string of that format has one \<^verbatim>\<open>T\<close>, so a
  string that ends in \<^verbatim>\<open>T00:00:00Z\<close> is in the format exactly when what precedes the
  suffix is such a date. Any other string is \<^const>\<open>None\<close> here; an engine may read more
  (its fallback formats), which is why \<^const>\<open>computeRateForDate\<close> is stated for any
  constructor and \<open>Date_parse\<close> serves as the concrete one.
\<close>

definition is_digit :: "char \<Rightarrow> bool" where
  "is_digit c = (c \<in> set ''0123456789'')"

definition digit_val :: "char \<Rightarrow> int" where
  "digit_val c = of_char c - 48"

definition digits_val :: "string \<Rightarrow> int" where
  "digits_val ds = foldl (\<lambda>n c. 10 * n + digit_val c) 0 ds"

definition parse_year :: "string \<Rightarrow> (int \<times> string) option" where
  "parse_year s =
     (case s of
        [] \<Rightarrow> None
      | c # r \<Rightarrow>
          if c = CHR ''+'' \<or> c = CHR ''-'' then
            (if 6 \<le> length r \<and> list_all is_digit (take 6 r) then
               (let y = digits_val (take 6 r) in
                if c = CHR ''-'' \<and> y = 0 then None
                else Some (if c = CHR ''-'' then - y else y, drop 6 r))
             else None)
          else if 4 \<le> length s \<and> list_all is_digit (take 4 s) then
            Some (digits_val (take 4 s), drop 4 s)
          else None)"

definition parse_field :: "string \<Rightarrow> (int \<times> string) option" where
  \<comment> \<open>a hyphen and two digits\<close>
  "parse_field s =
     (case s of
        c # a # b # r \<Rightarrow>
          if c = CHR ''-'' \<and> is_digit a \<and> is_digit b
          then Some (digits_val [a, b], r) else None
      | _ \<Rightarrow> None)"

definition parse_date :: "string \<Rightarrow> (int \<times> int \<times> int) option" where
  "parse_date s =
     (case parse_year s of
        None \<Rightarrow> None
      | Some (y, r1) \<Rightarrow>
          (if r1 = [] then Some (y, 1, 1)
           else (case parse_field r1 of
                   None \<Rightarrow> None
                 | Some (m, r2) \<Rightarrow>
                     (if r2 = [] then Some (y, m, 1)
                      else (case parse_field r2 of
                              None \<Rightarrow> None
                            | Some (d, r3) \<Rightarrow>
                                (if r3 = [] then Some (y, m, d) else None))))))"

definition leap_year :: "int \<Rightarrow> bool" where
  "leap_year y = (y mod 4 = 0 \<and> (y mod 100 \<noteq> 0 \<or> y mod 400 = 0))"

definition days_in_month :: "int \<Rightarrow> int \<Rightarrow> int" where
  "days_in_month y m =
     (if m = 2 then (if leap_year y then 29 else 28)
      else if m = 4 \<or> m = 6 \<or> m = 9 \<or> m = 11 then 30 else 31)"

definition days_from_civil :: "int \<Rightarrow> int \<Rightarrow> int \<Rightarrow> int" where
  \<comment> \<open>the day number of a proleptic Gregorian date, 1970-01-01 being day 0\<close>
  "days_from_civil y m d =
     (let y' = (if m \<le> 2 then y - 1 else y);
          era = y' div 400;
          yoe = y' - era * 400;
          doy = (153 * (if m > 2 then m - 3 else m + 9) + 2) div 5 + d - 1;
          doe = yoe * 365 + yoe div 4 - yoe div 100 + doy
      in era * 146097 + doe - 719468)"

definition TimeClip :: "int \<Rightarrow> int option" where
  "TimeClip t = (if \<bar>t\<bar> \<le> 8640000000000000 then Some t else None)"

definition Date_parse :: "string \<Rightarrow> int option" where
  "Date_parse s =
     (let n = length s in
      if 10 \<le> n \<and> drop (n - 10) s = ''T00:00:00Z'' then
        (case parse_date (take (n - 10) s) of
           None \<Rightarrow> None
         | Some (y, m, d) \<Rightarrow>
             if 1 \<le> m \<and> m \<le> 12 \<and> 1 \<le> d \<and> d \<le> days_in_month y m
             then TimeClip (days_from_civil y m d * msPerDay)
             else None)
      else None)"

subsection \<open>Numbers that may be non-finite\<close>

text \<open>
  The value of \<^verbatim>\<open>parseFloat\<close> is a finite number, \<^verbatim>\<open>NaN\<close> or an infinity, and the
  points derivation computes with it. The operations are those of the language on its
  number type, with exact arithmetic on the finite values.
\<close>

datatype number = NaN | Num rat | PosInf | NegInf

fun sign_neg :: "number \<Rightarrow> bool" where
  "sign_neg (Num a) = (a < 0)"
| "sign_neg NegInf = True"
| "sign_neg _ = False"

definition signed_inf :: "bool \<Rightarrow> number" where
  "signed_inf neg = (if neg then NegInf else PosInf)"

fun js_neg :: "number \<Rightarrow> number" where
  "js_neg NaN = NaN"
| "js_neg (Num a) = Num (- a)"
| "js_neg PosInf = NegInf"
| "js_neg NegInf = PosInf"

fun js_gt :: "number \<Rightarrow> number \<Rightarrow> bool" where
  \<comment> \<open>\<^verbatim>\<open>x > y\<close>\<close>
  "js_gt NaN _ = False"
| "js_gt _ NaN = False"
| "js_gt (Num a) (Num b) = (a > b)"
| "js_gt PosInf y = (y \<noteq> PosInf)"
| "js_gt NegInf _ = False"
| "js_gt (Num a) PosInf = False"
| "js_gt (Num a) NegInf = True"

fun js_mul :: "number \<Rightarrow> number \<Rightarrow> number" where
  \<comment> \<open>\<^verbatim>\<open>x * y\<close>\<close>
  "js_mul NaN _ = NaN"
| "js_mul _ NaN = NaN"
| "js_mul (Num a) (Num b) = Num (a * b)"
| "js_mul (Num a) y = (if a = 0 then NaN else signed_inf ((a < 0) \<noteq> sign_neg y))"
| "js_mul x (Num b) = (if b = 0 then NaN else signed_inf (sign_neg x \<noteq> (b < 0)))"
| "js_mul x y = signed_inf (sign_neg x \<noteq> sign_neg y)"

fun js_div :: "number \<Rightarrow> number \<Rightarrow> number" where
  \<comment> \<open>\<^verbatim>\<open>x / y\<close>; a zero divisor counts as \<^verbatim>\<open>+0\<close>\<close>
  "js_div NaN _ = NaN"
| "js_div _ NaN = NaN"
| "js_div (Num a) (Num b) =
     (if b = 0 then (if a = 0 then NaN else signed_inf (a < 0)) else Num (a / b))"
| "js_div (Num a) y = Num 0"
| "js_div x (Num b) = signed_inf (sign_neg x \<noteq> (b < 0))"
| "js_div x y = NaN"

definition truthy :: "number \<Rightarrow> bool" where
  \<comment> \<open>\<^verbatim>\<open>ToBoolean\<close> of a number: false for \<^verbatim>\<open>NaN\<close> and for zero\<close>
  "truthy x = (x \<noteq> NaN \<and> x \<noteq> Num 0)"

definition js_or :: "number \<Rightarrow> number \<Rightarrow> number" where
  \<comment> \<open>\<^verbatim>\<open>x || y\<close>\<close>
  "js_or x y = (if truthy x then x else y)"

subsection \<open>parseFloat\<close>

text \<open>
  \<^verbatim>\<open>parseFloat\<close> drops leading white space and reads the longest prefix of the rest
  that is a decimal literal: an optional sign, then \<^verbatim>\<open>Infinity\<close> or digits with an
  optional fraction (at least one digit before or after the point) and an optional
  exponent. With no such prefix the result is \<^verbatim>\<open>NaN\<close>.
\<close>

definition is_space :: "char \<Rightarrow> bool" where
  "is_space c = (c \<in> set [CHR 0x09, CHR 0x0A, CHR 0x0B, CHR 0x0C, CHR 0x0D, CHR 0x20, CHR 0xA0])"

definition starts_with :: "string \<Rightarrow> string \<Rightarrow> bool" where
  "starts_with p s = (take (length p) s = p)"

definition signed_digits :: "string \<Rightarrow> int" where
  \<comment> \<open>the value of a signed integer at the head of the string, 0 when there is none\<close>
  "signed_digits s =
     (case s of
        [] \<Rightarrow> 0
      | c # r \<Rightarrow>
          if c = CHR ''+'' then digits_val (takeWhile is_digit r)
          else if c = CHR ''-'' then - digits_val (takeWhile is_digit r)
          else digits_val (takeWhile is_digit s))"

definition scan_exponent :: "string \<Rightarrow> int" where
  \<comment> \<open>the exponent part at the head of the string; an \<^verbatim>\<open>e\<close> that no digit follows is
      not part of the literal\<close>
  "scan_exponent s =
     (case s of
        [] \<Rightarrow> 0
      | c # r \<Rightarrow> if c = CHR ''e'' \<or> c = CHR ''E'' then signed_digits r else 0)"

definition scan_unsigned :: "string \<Rightarrow> number" where
  "scan_unsigned s =
     (if starts_with ''Infinity'' s then PosInf
      else
        let ip = takeWhile is_digit s;
            r1 = dropWhile is_digit s;
            fp = (case r1 of [] \<Rightarrow> []
                  | c # r \<Rightarrow> if c = CHR ''.'' then takeWhile is_digit r else []);
            r2 = (case r1 of [] \<Rightarrow> []
                  | c # r \<Rightarrow> if c = CHR ''.'' then dropWhile is_digit r else r1)
        in if ip = [] \<and> fp = [] then NaN
           else Num ((of_int (digits_val ip) + of_int (digits_val fp) / 10 ^ length fp)
                     * (10 powi scan_exponent r2)))"

definition parseFloat :: "string \<Rightarrow> number" where
  "parseFloat s =
     (case dropWhile is_space s of
        [] \<Rightarrow> NaN
      | c # r \<Rightarrow>
          if c = CHR ''-'' then js_neg (scan_unsigned r)
          else if c = CHR ''+'' then scan_unsigned r
          else scan_unsigned (c # r))"

subsection \<open>The points derivation\<close>

text \<open>
  The \<^verbatim>\<open>useMemo\<close> closure of \<^verbatim>\<open>HomePage\<close> reads the three text fields, derives the
  three inputs from them and computes the three results. \<open>computePoints\<close> is the part
  after the three \<^verbatim>\<open>parseFloat\<close> lines; the closure returns all six values.
\<close>

record calculation =
  usdAmount :: number
  ratePer10k :: number
  bonusX :: number
  basePoints :: number
  totalPoints :: number
  effectivePerUsd :: number

definition computePoints :: "number \<Rightarrow> number \<Rightarrow> number \<Rightarrow> calculation" where
  "computePoints usdAmount' ratePer10k' bonusX' =
     (if js_gt usdAmount' (Num 0) \<and> js_gt ratePer10k' (Num 0) then
        (let basePoints' = js_mul usdAmount' (js_div (Num 10000) ratePer10k');
             totalPoints' = js_mul basePoints' bonusX';
             effectivePerUsd' = js_div totalPoints' usdAmount'
         in \<lparr>usdAmount = usdAmount', ratePer10k = ratePer10k', bonusX = bonusX',
             basePoints = basePoints', totalPoints = totalPoints',
             effectivePerUsd = effectivePerUsd'\<rparr>)
      else
        \<lparr>usdAmount = usdAmount', ratePer10k = ratePer10k', bonusX = bonusX',
         basePoints = Num 0, totalPoints = Num 0, effectivePerUsd = Num 0\<rparr>)"

definition useMemo_compute :: "string \<Rightarrow> string \<Rightarrow> string \<Rightarrow> calculation" where
  "useMemo_compute usd rate bonus =
     computePoints (js_or (parseFloat usd) (Num 0))
                   (js_or (parseFloat rate) (Num 0))
                   (js_or (parseFloat bonus) (Num 1))"

subsection \<open>toFixed and toISOString\<close>

text \<open>
  \<^verbatim>\<open>x.toFixed(f)\<close> for a finite \<open>x\<close>: the sign is split off, \<open>n\<close> is the integer nearest
  to \<open>x * 10 ^ f\<close> (the larger one of two), its decimal digits are padded with zeros to
  \<open>f + 1\<close> places and the point goes before the last \<open>f\<close>. The standard prints a number of
  magnitude \<open>10 ^ 21\<close> or more in exponent notation instead; the schedule stays below
  \<^const>\<open>MAX_RATE\<close> (\<open>computeRateForDate_range\<close>), so that branch is not part of the model.
\<close>

definition digit_char :: "int \<Rightarrow> char" where
  "digit_char d = char_of (48 + d)"

function dec_digits :: "int \<Rightarrow> string" where
  \<comment> \<open>the decimal digits of a number that is not negative\<close>
  "dec_digits n =
     (if n < 10 then [digit_char n] else dec_digits (n div 10) @ [digit_char (n mod 10)])"
  by pat_completeness auto
termination
  by (relation "measure nat") auto

declare dec_digits.simps [simp del]

definition toFixed :: "nat \<Rightarrow> rat \<Rightarrow> string" where
  "toFixed f x =
     (let s = (if x < 0 then ''-'' else []);
          n = \<lfloor>\<bar>x\<bar> * 10 ^ f + 1 / 2\<rfloor>;
          m = dec_digits n;
          m' = (if f \<noteq> 0 then
                  (let ds = (if length m \<le> f
                             then replicate (f + 1 - length m) CHR ''0'' @ m else m);
                       k = length ds
                   in take (k - f) ds @ ''.'' @ drop (k - f) ds)
                else m)
      in s @ m')"

definition civil_from_days :: "int \<Rightarrow> int \<times> int \<times> int" where
  \<comment> \<open>year, month and day of a day number, the inverse of \<^const>\<open>days_from_civil\<close>\<close>
  "civil_from_days z0 =
     (let z = z0 + 719468;
          era = z div 146097;
          doe = z - era * 146097;
          yoe = (doe - doe div 1460 + doe div 36524 - doe div 146096) div 365;
          doy = doe - (365 * yoe + yoe div 4 - yoe div 100);
          mp = (5 * doy + 2) div 153;
          d = doy - (153 * mp + 2) div 5 + 1;
          m = (if mp < 10 then mp + 3 else mp - 9);
          y = yoe + era * 400
      in (if m \<le> 2 then y + 1 else y, m, d))"

definition pad_digits :: "nat \<Rightarrow> int \<Rightarrow> string" where
  \<comment> \<open>the decimal digits of a number that is not negative, on at least \<open>w\<close> places\<close>
  "pad_digits w n =
     replicate (w - length (dec_digits n)) CHR ''0'' @ dec_digits n"

definition toISOString :: "int \<Rightarrow> string" where
  \<comment> \<open>of a date with time value \<open>t\<close>; a year outside 0 to 9999 has a sign and six digits\<close>
  "toISOString t =
     (let ms = t mod msPerDay in
      case civil_from_days (t div msPerDay) of (y, m, d) \<Rightarrow>
        (if 0 \<le> y \<and> y \<le> 9999 then pad_digits 4 y
         else (if y < 0 then ''-'' else ''+'') @ pad_digits 6 \<bar>y\<bar>)
        @ ''-'' @ pad_digits 2 m @ ''-'' @ pad_digits 2 d
        @ ''T'' @ pad_digits 2 (ms div 3600000)
        @ '':'' @ pad_digits 2 (ms div 60000 mod 60)
        @ '':'' @ pad_digits 2 (ms div 1000 mod 60)
        @ ''.'' @ pad_digits 3 (ms mod 1000) @ ''Z'')"

subsection \<open>The page state and its handlers\<close>

text \<open>
  The four \<^verbatim>\<open>useState\<close> cells of \<^verbatim>\<open>HomePage\<close>. A handler takes the state and returns
  the state after its \<^verbatim>\<open>set...\<close> calls. \<^verbatim>\<open>handleUseToday\<close> reads the clock:
  \<open>today\<close> is the time value of \<^verbatim>\<open>new Date()\<close>.
\<close>

record page_state =
  usd :: string
  rate :: string
  bonus :: string
  sacrificeDate :: string

definition initial_state :: page_state where
  "initial_state =
     \<lparr>usd = ''1000'', rate = toFixed 4 BASE_RATE, bonus = ''2.0'',
      sacrificeDate = ''2025-11-11''\<rparr>"

definition handleDateChange :: "(string \<Rightarrow> int option) \<Rightarrow> string \<Rightarrow> page_state \<Rightarrow> page_state" where
  "handleDateChange newDate v st =
     (let st1 = st\<lparr>sacrificeDate := v\<rparr> in
      case computeRateForDate newDate v of
        None \<Rightarrow> st1
      | Some computed \<Rightarrow> st1\<lparr>rate := toFixed 4 computed\<rparr>)"

definition handleUseToday :: "(string \<Rightarrow> int option) \<Rightarrow> int \<Rightarrow> page_state \<Rightarrow> page_state" where
  "handleUseToday newDate today st =
     (let iso = take 10 (toISOString today);
          st1 = st\<lparr>sacrificeDate := iso\<rparr> in
      case computeRateForDate newDate iso of
        None \<Rightarrow> st1
      | Some computed \<Rightarrow> st1\<lparr>rate := toFixed 4 computed\<rparr>)"

definition page_calculation :: "page_state \<Rightarrow> calculation" where
  \<comment> \<open>the \<^verbatim>\<open>useMemo\<close> closure on the current fields\<close>
  "page_calculation st = useMemo_compute (usd st) (rate st) (bonus st)"

section \<open>The rate schedule\<close>

subsection \<open>The schedule dates and the growth factor\<close>

lemma schedule_dates:
  "Date_parse ''2025-11-11T00:00:00Z'' = Some START_DATE"
  "Date_parse ''2025-12-02T00:00:00Z'' = Some BASE_END_DATE"
  "Date_parse ''2026-01-09T00:00:00Z'' = Some END_DATE"
  by code_simp+

lemma growth_factor: "1 + DAILY_DECAY = 17 / 16"
  by (simp add: DAILY_DECAY_def)

lemma cap_reached: "MAX_RATE < (17 / 16) ^ 38"
  by (simp add: MAX_RATE_def power_divide)

lemma window_days: "(END_DATE - BASE_END_DATE) div msPerDay = 38"
  by (simp add: END_DATE_def BASE_END_DATE_def msPerDay_def)

lemma decayDays_nonneg: "BASE_END_DATE < d \<Longrightarrow> 0 \<le> (d - BASE_END_DATE) div msPerDay"
  by (simp add: msPerDay_def pos_imp_zdiv_nonneg_iff)

text \<open>
  The result on a date that the constructor reads, by the position of its time value.
  The test against \<^const>\<open>START_DATE\<close> and the flat period give the same rate, so they
  merge.
\<close>

lemma computeRateForDate_Some:
  assumes "dateStr \<noteq> []" and "newDate (dateStr @ ''T00:00:00Z'') = Some d"
  shows "computeRateForDate newDate dateStr =
    Some (if d \<le> BASE_END_DATE then 1
          else if END_DATE < d then MAX_RATE
          else min ((17 / 16) ^ nat ((d - BASE_END_DATE) div msPerDay)) MAX_RATE)"
proof -
  have order: "START_DATE \<le> BASE_END_DATE" "BASE_END_DATE \<le> END_DATE"
    by (simp_all add: START_DATE_def BASE_END_DATE_def END_DATE_def)
  show ?thesis
    using assms order decayDays_nonneg [of d]
    by (auto simp: computeRateForDate_def BASE_RATE_def growth_factor power_int_def Let_def min_def)
qed

lemma computeRateForDate_None:
  "computeRateForDate newDate dateStr = None \<longleftrightarrow>
     dateStr = [] \<or> newDate (dateStr @ ''T00:00:00Z'') = None"
  by (auto simp: computeRateForDate_def Let_def split: option.splits)

lemma growth_ge_one: "(1::rat) \<le> (17 / 16) ^ k"
  by (rule one_le_power) simp

lemma computeRateForDate_range:
  assumes "computeRateForDate newDate dateStr = Some r"
  shows "BASE_RATE \<le> r \<and> r \<le> MAX_RATE"
proof -
  from assms have ne: "dateStr \<noteq> []"
    by (auto simp: computeRateForDate_def)
  from assms ne obtain d where d: "newDate (dateStr @ ''T00:00:00Z'') = Some d"
    by (cases "newDate (dateStr @ ''T00:00:00Z'')") (auto simp: computeRateForDate_def)
  have "(1::rat) \<le> MAX_RATE"
    by (simp add: MAX_RATE_def)
  with assms computeRateForDate_Some [of dateStr newDate d] ne d growth_ge_one show ?thesis
    by (auto simp: BASE_RATE_def min_def split: if_splits)
qed

subsection \<open>The flat period\<close>

text \<open>
  Claim C5. For every date that the constructor reads and that is on or before the
  flat-end date 2025-12-02, dates before the window start 2025-11-11 included,
  \<^const>\<open>computeRateForDate\<close> returns exactly the base rate 1.
\<close>

theorem flat_rate_until_base_end:
  assumes "dateStr \<noteq> []"
    and "newDate (dateStr @ ''T00:00:00Z'') = Some d"
    and "d \<le> BASE_END_DATE"
  shows "computeRateForDate newDate dateStr = Some BASE_RATE \<and> BASE_RATE = 1"
  using computeRateForDate_Some [of dateStr newDate d] assms
  by (simp add: BASE_RATE_def)

lemma Date_parse_samples:
  "Date_parse ''2025-10-31T00:00:00Z'' = Some 1761868800000"
  "Date_parse ''2025-12-03T00:00:00Z'' = Some 1764720000000"
  "Date_parse ''2025-12-05T00:00:00Z'' = Some 1764892800000"
  "Date_parse ''2025-12-20T00:00:00Z'' = Some 1766188800000"
  "Date_parse ''2026-03-01T00:00:00Z'' = Some 1772323200000"
  "Date_parse ''not a dateT00:00:00Z'' = None"
  by code_simp+

theorem flat_rate_until_base_end_witness:
  "''2025-12-02'' \<noteq> [] \<and> Date_parse (''2025-12-02'' @ ''T00:00:00Z'') = Some BASE_END_DATE
   \<and> BASE_END_DATE \<le> BASE_END_DATE
   \<and> computeRateForDate Date_parse ''2025-12-02'' = Some 1
   \<and> computeRateForDate Date_parse ''2025-10-31'' = Some 1"
  using flat_rate_until_base_end [of "''2025-12-02''" Date_parse BASE_END_DATE]
    flat_rate_until_base_end [of "''2025-10-31''" Date_parse 1761868800000]
  by (simp add: schedule_dates Date_parse_samples BASE_END_DATE_def)

subsection \<open>The growth period\<close>

text \<open>
  Claim C4. For every date that the constructor reads, strictly after the flat-end date
  and up to and including the window end date, \<^const>\<open>computeRateForDate\<close> returns
  the base rate times \<open>(1 + DAILY_DECAY)\<close> to the power \<open>daysElapsed\<close>, where
  \<open>daysElapsed\<close> is the floor of the time since the flat-end date in days, and the cap
  \<^const>\<open>MAX_RATE\<close> when that product exceeds it.
\<close>

theorem growth_rate_in_window:
  assumes "dateStr \<noteq> []"
    and "newDate (dateStr @ ''T00:00:00Z'') = Some d"
    and "BASE_END_DATE < d" and "d \<le> END_DATE"
  shows "let daysElapsed = \<lfloor>(of_int (d - BASE_END_DATE) :: rat) / of_int msPerDay\<rfloor>;
             grown = BASE_RATE * (1 + DAILY_DECAY) ^ nat daysElapsed
         in computeRateForDate newDate dateStr
              = Some (if grown > MAX_RATE then MAX_RATE else grown)
            \<and> 0 \<le> daysElapsed"
proof -
  have days: "\<lfloor>(of_int (d - BASE_END_DATE) :: rat) / of_int msPerDay\<rfloor>
      = (d - BASE_END_DATE) div msPerDay"
    by (simp only: floor_divide_of_int_eq)
  show ?thesis
    unfolding Let_def days
    using computeRateForDate_Some [of dateStr newDate d] assms decayDays_nonneg [of d]
    by (simp add: BASE_RATE_def growth_factor min_def)
qed

theorem growth_rate_in_window_witness:
  "''2025-12-05'' \<noteq> [] \<and> Date_parse (''2025-12-05'' @ ''T00:00:00Z'') = Some 1764892800000
   \<and> BASE_END_DATE < 1764892800000 \<and> 1764892800000 \<le> END_DATE
   \<and> computeRateForDate Date_parse ''2025-12-05'' = Some ((17 / 16) ^ 3)"
  using growth_rate_in_window [of "''2025-12-05''" Date_parse 1764892800000]
  by (simp add: Date_parse_samples BASE_END_DATE_def END_DATE_def msPerDay_def BASE_RATE_def
      DAILY_DECAY_def MAX_RATE_def power_divide)

text \<open>
  Claim C1, as amended. The query date 2025-12-03, the day after the flat-end date, is
  one whole day past \<^const>\<open>BASE_END_DATE\<close>, so the growth exponent is 1 and the rate
  is \<open>1 * 1.0625 ^ 1 = 1.0625\<close>. The exponent counts the days since the last flat day,
  which makes the 38th day, 2026-01-09, reach the final rate.
\<close>

theorem first_growth_day_rate:
  "Date_parse (''2025-12-03'' @ ''T00:00:00Z'') = Some 1764720000000
   \<and> (1764720000000 - BASE_END_DATE) div msPerDay = 1
   \<and> computeRateForDate Date_parse ''2025-12-03'' = Some (BASE_RATE * (1 + DAILY_DECAY) ^ 1)
   \<and> computeRateForDate Date_parse ''2025-12-03'' = Some (10625 / 10000)"
  using computeRateForDate_Some [of "''2025-12-03''" Date_parse 1764720000000]
  by (simp add: Date_parse_samples BASE_END_DATE_def END_DATE_def msPerDay_def BASE_RATE_def
      DAILY_DECAY_def MAX_RATE_def)

text \<open>
  The claim as it was stated, rate 1.0000 with exponent 0 on 2025-12-03, fails.
\<close>

theorem first_growth_day_not_base_rate:
  "computeRateForDate Date_parse ''2025-12-03'' \<noteq> Some 1"
  using computeRateForDate_Some [of "''2025-12-03''" Date_parse 1764720000000]
  by (simp add: Date_parse_samples BASE_END_DATE_def END_DATE_def msPerDay_def MAX_RATE_def)

subsection \<open>The window end and after\<close>

text \<open>
  Claim C6. For every date that the constructor reads and that is on or after the window
  end date 2026-01-09, \<^const>\<open>computeRateForDate\<close> returns exactly the cap 10.0115:
  after the end date by the test against \<^const>\<open>END_DATE\<close>, on the end date itself
  because the 38 days of growth exceed the cap.
\<close>

theorem max_rate_from_end_date:
  assumes "dateStr \<noteq> []"
    and "newDate (dateStr @ ''T00:00:00Z'') = Some d"
    and "END_DATE \<le> d"
  shows "computeRateForDate newDate dateStr = Some MAX_RATE \<and> MAX_RATE = 100115 / 10000"
proof (cases "END_DATE < d")
  case True
  with computeRateForDate_Some [of dateStr newDate d] assms show ?thesis
    by (simp add: MAX_RATE_def BASE_END_DATE_def END_DATE_def)
next
  case False
  with assms(3) have "d = END_DATE" by simp
  with computeRateForDate_Some [of dateStr newDate d] assms(1,2) cap_reached show ?thesis
    by (simp add: window_days min_def) (simp add: MAX_RATE_def BASE_END_DATE_def END_DATE_def)
qed

theorem max_rate_from_end_date_witness:
  "''2026-01-09'' \<noteq> [] \<and> Date_parse (''2026-01-09'' @ ''T00:00:00Z'') = Some END_DATE
   \<and> END_DATE \<le> END_DATE
   \<and> computeRateForDate Date_parse ''2026-01-09'' = Some (100115 / 10000)
   \<and> computeRateForDate Date_parse ''2026-03-01'' = Some (100115 / 10000)"
  using max_rate_from_end_date [of "''2026-01-09''" Date_parse END_DATE]
    max_rate_from_end_date [of "''2026-03-01''" Date_parse 1772323200000]
  by (simp add: schedule_dates Date_parse_samples END_DATE_def)

subsection \<open>Monotonicity\<close>

text \<open>
  Claim C7. For every pair of dates that the constructor reads, the first not after the
  second, the rate of the first is at most the rate of the second: the schedule does not
  decrease over the whole date domain.
\<close>

theorem rate_monotone:
  assumes "s1 \<noteq> []" and "newDate (s1 @ ''T00:00:00Z'') = Some d1"
    and "s2 \<noteq> []" and "newDate (s2 @ ''T00:00:00Z'') = Some d2"
    and "d1 \<le> d2"
  shows "\<exists>r1 r2. computeRateForDate newDate s1 = Some r1
                \<and> computeRateForDate newDate s2 = Some r2 \<and> r1 \<le> r2"
proof -
  define g where "g d = (if d \<le> BASE_END_DATE then 1
      else if END_DATE < d then MAX_RATE
      else min ((17 / 16) ^ nat ((d - BASE_END_DATE) div msPerDay)) MAX_RATE)" for d
  have r1: "computeRateForDate newDate s1 = Some (g d1)"
    using computeRateForDate_Some [of s1 newDate d1] assms(1,2) by (simp add: g_def)
  have r2: "computeRateForDate newDate s2 = Some (g d2)"
    using computeRateForDate_Some [of s2 newDate d2] assms(3,4) by (simp add: g_def)
  have cap: "(1::rat) \<le> MAX_RATE"
    by (simp add: MAX_RATE_def)
  have lower: "1 \<le> g d" for d
    using cap growth_ge_one by (simp add: g_def)
  have upper: "g d \<le> MAX_RATE" for d
    using cap by (simp add: g_def)
  have "g d1 \<le> g d2"
  proof (cases "d1 \<le> BASE_END_DATE")
    case True
    then have "g d1 = 1" by (simp add: g_def)
    with lower [of d2] show ?thesis by simp
  next
    case flat1: False
    show ?thesis
    proof (cases "END_DATE < d2")
      case True
      with flat1 assms(5) have "g d2 = MAX_RATE" by (simp add: g_def)
      with upper [of d1] show ?thesis by simp
    next
      case False
      have "(d1 - BASE_END_DATE) div msPerDay \<le> (d2 - BASE_END_DATE) div msPerDay"
        using assms(5) by (intro zdiv_mono1) (simp_all add: msPerDay_def)
      then have "nat ((d1 - BASE_END_DATE) div msPerDay) \<le> nat ((d2 - BASE_END_DATE) div msPerDay)"
        by simp
      then have "((17 / 16)::rat) ^ nat ((d1 - BASE_END_DATE) div msPerDay)
          \<le> (17 / 16) ^ nat ((d2 - BASE_END_DATE) div msPerDay)"
        by (intro power_increasing) simp_all
      then have "min ((17 / 16) ^ nat ((d1 - BASE_END_DATE) div msPerDay)) MAX_RATE
          \<le> min ((17 / 16) ^ nat ((d2 - BASE_END_DATE) div msPerDay)) MAX_RATE"
        by (rule min.mono) (rule order_refl)
      moreover have "g d1 = min ((17 / 16) ^ nat ((d1 - BASE_END_DATE) div msPerDay)) MAX_RATE"
        using flat1 False assms(5) by (simp add: g_def)
      moreover have "g d2 = min ((17 / 16) ^ nat ((d2 - BASE_END_DATE) div msPerDay)) MAX_RATE"
        using flat1 False assms(5) by (simp add: g_def)
      ultimately show ?thesis
        by (simp only:)
    qed
  qed
  with r1 r2 show ?thesis by blast
qed

theorem rate_monotone_witness:
  "''2025-12-05'' \<noteq> [] \<and> Date_parse (''2025-12-05'' @ ''T00:00:00Z'') = Some 1764892800000
   \<and> ''2025-12-20'' \<noteq> [] \<and> Date_parse (''2025-12-20'' @ ''T00:00:00Z'') = Some 1766188800000
   \<and> (1764892800000::int) \<le> 1766188800000
   \<and> (\<exists>r1 r2. computeRateForDate Date_parse ''2025-12-05'' = Some r1
        \<and> computeRateForDate Date_parse ''2025-12-20'' = Some r2 \<and> r1 \<le> r2)"
  using rate_monotone [of "''2025-12-05''" Date_parse 1764892800000 "''2025-12-20''" 1766188800000]
  by (simp add: Date_parse_samples)

subsection \<open>Dates that cannot be read\<close>

text \<open>
  Claim C8. For every date string that the constructor cannot read, the empty string
  included, \<^const>\<open>computeRateForDate\<close> returns \<^const>\<open>None\<close> (the source's
  \<^verbatim>\<open>null\<close>) and no rate, and the handler \<^const>\<open>handleDateChange\<close> then leaves the
  rate field as it was: only the date field changes, and the calculation shown is the
  same as before.
\<close>

theorem invalid_date_keeps_rate:
  assumes "dateStr = [] \<or> newDate (dateStr @ ''T00:00:00Z'') = None"
  shows "computeRateForDate newDate dateStr = None
     \<and> rate (handleDateChange newDate dateStr st) = rate st
     \<and> handleDateChange newDate dateStr st = st\<lparr>sacrificeDate := dateStr\<rparr>
     \<and> page_calculation (handleDateChange newDate dateStr st) = page_calculation st"
proof -
  from assms have none: "computeRateForDate newDate dateStr = None"
    by (simp add: computeRateForDate_None)
  then show ?thesis
    by (simp add: handleDateChange_def page_calculation_def)
qed

theorem invalid_date_keeps_rate_witness:
  "(''not a date'' = [] \<or> Date_parse (''not a date'' @ ''T00:00:00Z'') = None)
   \<and> computeRateForDate Date_parse ''not a date'' = None
   \<and> rate (handleDateChange Date_parse ''not a date'' initial_state) = ''1.0000''
   \<and> computeRateForDate Date_parse [] = None
   \<and> rate (handleDateChange Date_parse [] initial_state) = ''1.0000''"
proof -
  have init: "rate initial_state = ''1.0000''"
    by code_simp
  show ?thesis
    using invalid_date_keeps_rate [of "''not a date''" Date_parse initial_state]
      invalid_date_keeps_rate [of "[]" Date_parse initial_state]
    by (simp add: Date_parse_samples init)
qed

section \<open>The points derivation\<close>

lemma parseFloat_samples:
  "parseFloat ''40000'' = Num 40000"
  "parseFloat ''1.0000'' = Num 1"
  "parseFloat ''1'' = Num 1"
  "parseFloat ''2.2743'' = Num (22743 / 10000)"
  "parseFloat ''0'' = Num 0"
  "parseFloat ''-5'' = Num (- 5)"
  "parseFloat ''abc'' = NaN"
  "parseFloat [] = NaN"
  "parseFloat ''1000'' = Num 1000"
  "parseFloat ''2.0'' = Num 2"
  "parseFloat ''3'' = Num 3"
  by code_simp+

lemma computePoints_inputs [simp]:
  "usdAmount (computePoints u r b) = u"
  "ratePer10k (computePoints u r b) = r"
  "bonusX (computePoints u r b) = b"
  by (simp_all add: computePoints_def Let_def)

lemma computePoints_guarded:
  assumes "js_gt u (Num 0)" and "js_gt r (Num 0)"
  shows "basePoints (computePoints u r b) = js_mul u (js_div (Num 10000) r)"
    and "totalPoints (computePoints u r b) = js_mul (basePoints (computePoints u r b)) b"
    and "effectivePerUsd (computePoints u r b) = js_div (totalPoints (computePoints u r b)) u"
  using assms by (simp_all add: computePoints_def Let_def)

lemma computePoints_zero:
  assumes "\<not> (js_gt u (Num 0) \<and> js_gt r (Num 0))"
  shows "basePoints (computePoints u r b) = Num 0"
    and "totalPoints (computePoints u r b) = Num 0"
    and "effectivePerUsd (computePoints u r b) = Num 0"
  using assms by (auto simp: computePoints_def Let_def)

text \<open>
  Claim C2. For every amount and rate above zero the derivation returns
  \<open>basePoints = usdAmount * (10000 / ratePer10k)\<close>,
  \<open>totalPoints = basePoints * bonusX\<close> and \<open>effectivePerUsd = totalPoints / usdAmount\<close>:
  in the operations of the language for any inputs, and in exact arithmetic for finite
  ones, where the total is also the base points at multiplier 1 times the multiplier.
  The amount 40000 at rate 1.0000 gives 400,000,000 base points at multiplier 1 and
  909,720,000 total points at multiplier 2.2743.
\<close>

theorem points_formula:
  "(js_gt u (Num 0) \<and> js_gt r (Num 0) \<longrightarrow>
      basePoints (computePoints u r b) = js_mul u (js_div (Num 10000) r)
    \<and> totalPoints (computePoints u r b) = js_mul (basePoints (computePoints u r b)) b
    \<and> effectivePerUsd (computePoints u r b) = js_div (totalPoints (computePoints u r b)) u)
   \<and> (0 < x \<and> 0 < y \<longrightarrow>
      basePoints (computePoints (Num x) (Num y) (Num z)) = Num (x * (10000 / y))
    \<and> totalPoints (computePoints (Num x) (Num y) (Num z)) = Num (x * (10000 / y) * z)
    \<and> effectivePerUsd (computePoints (Num x) (Num y) (Num z)) = Num (x * (10000 / y) * z / x)
    \<and> totalPoints (computePoints (Num x) (Num y) (Num z))
        = js_mul (basePoints (computePoints (Num x) (Num y) (Num 1))) (Num z))
   \<and> basePoints (useMemo_compute ''40000'' ''1.0000'' ''1'') = Num 400000000
   \<and> totalPoints (useMemo_compute ''40000'' ''1.0000'' ''2.2743'') = Num 909720000"
proof (intro conjI impI)
  assume "js_gt u (Num 0) \<and> js_gt r (Num 0)"
  then show "basePoints (computePoints u r b) = js_mul u (js_div (Num 10000) r)"
    and "totalPoints (computePoints u r b) = js_mul (basePoints (computePoints u r b)) b"
    and "effectivePerUsd (computePoints u r b) = js_div (totalPoints (computePoints u r b)) u"
    by (simp_all add: computePoints_guarded)
next
  assume pos: "0 < x \<and> 0 < y"
  then have guard: "js_gt (Num x) (Num 0)" "js_gt (Num y) (Num 0)"
    by simp_all
  from pos have nz: "x \<noteq> 0" "y \<noteq> 0" "x * (10000 / y) \<noteq> 0"
    by simp_all
  show base: "basePoints (computePoints (Num x) (Num y) (Num z)) = Num (x * (10000 / y))"
    using nz by (simp add: computePoints_guarded [OF guard])
  show total: "totalPoints (computePoints (Num x) (Num y) (Num z)) = Num (x * (10000 / y) * z)"
    using nz by (simp add: computePoints_guarded [OF guard])
  show "effectivePerUsd (computePoints (Num x) (Num y) (Num z)) = Num (x * (10000 / y) * z / x)"
    using nz by (simp add: computePoints_guarded [OF guard])
  show "totalPoints (computePoints (Num x) (Num y) (Num z))
      = js_mul (basePoints (computePoints (Num x) (Num y) (Num 1))) (Num z)"
    using nz by (simp add: computePoints_guarded [OF guard])
next
  show "basePoints (useMemo_compute ''40000'' ''1.0000'' ''1'') = Num 400000000"
    by (simp add: useMemo_compute_def parseFloat_samples js_or_def truthy_def
        computePoints_guarded)
  show "totalPoints (useMemo_compute ''40000'' ''1.0000'' ''2.2743'') = Num 909720000"
    by (simp add: useMemo_compute_def parseFloat_samples js_or_def truthy_def
        computePoints_guarded)
qed

theorem points_formula_witness:
  "js_gt (Num 40000) (Num 0) \<and> js_gt (Num 1) (Num 0) \<and> (0::rat) < 40000 \<and> (0::rat) < 1
   \<and> basePoints (computePoints (Num 40000) (Num 1) (Num (22743 / 10000))) = Num 400000000
   \<and> totalPoints (computePoints (Num 40000) (Num 1) (Num (22743 / 10000))) = Num 909720000
   \<and> effectivePerUsd (computePoints (Num 40000) (Num 1) (Num (22743 / 10000))) = Num 22743"
  using points_formula [of "Num 40000" "Num 1" "Num (22743 / 10000)" 40000 1 "22743 / 10000"]
  by simp

text \<open>
  Claim C9. When the amount is zero, or the rate is zero or negative, the derivation
  returns 0 for the base points, the total points and the points per dollar, whatever
  the multiplier. The function has no failing branch: the quotients are computed only
  behind the guard, and the division of the language returns a value for every operand.
\<close>

theorem zero_amount_or_rate_gives_zero:
  assumes "u = Num 0 \<or> (r = Num y \<and> y \<le> 0) \<or> r = NegInf"
  shows "computePoints u r b =
    \<lparr>usdAmount = u, ratePer10k = r, bonusX = b,
     basePoints = Num 0, totalPoints = Num 0, effectivePerUsd = Num 0\<rparr>"
proof -
  from assms have "\<not> (js_gt u (Num 0) \<and> js_gt r (Num 0))"
    by (cases u) auto
  then show ?thesis
    by (auto simp: computePoints_def)
qed

theorem zero_amount_or_rate_gives_zero_witness:
  "(Num 0 = Num 0 \<or> (Num 3 = Num 3 \<and> (3::rat) \<le> 0) \<or> Num 3 = NegInf)
   \<and> basePoints (computePoints (Num 0) (Num 3) (Num 2)) = Num 0
   \<and> totalPoints (computePoints (Num 0) (Num 3) (Num 2)) = Num 0
   \<and> effectivePerUsd (computePoints (Num 0) (Num 3) (Num 2)) = Num 0
   \<and> (Num 40000 = Num 0 \<or> (Num 0 = Num 0 \<and> (0::rat) \<le> 0) \<or> Num 0 = NegInf)
   \<and> computePoints (Num 40000) (Num 0) PosInf =
       \<lparr>usdAmount = Num 40000, ratePer10k = Num 0, bonusX = PosInf,
        basePoints = Num 0, totalPoints = Num 0, effectivePerUsd = Num 0\<rparr>
   \<and> totalPoints (useMemo_compute ''40000'' ''-5'' ''3'') = Num 0"
  using zero_amount_or_rate_gives_zero [of "Num 0" "Num 3" 3 "Num 2"]
    zero_amount_or_rate_gives_zero [of "Num 40000" "Num 0" 0 PosInf]
    zero_amount_or_rate_gives_zero [of "Num 40000" "Num (- 5)" "- 5" "Num 3"]
  by (simp add: useMemo_compute_def parseFloat_samples js_or_def truthy_def)

subsection \<open>Reading the three text fields\<close>

text \<open>
  Claim C3, as amended. For every triple of texts the three inputs are defined numbers:
  amount and rate text that \<^const>\<open>parseFloat\<close> cannot read (the empty text included)
  gives 0, such bonus text gives 1, and text that reads as a number is used at that
  number, except that bonus text reading as zero gives the multiplier 1, since the
  default of \<^verbatim>\<open>parseFloat(bonus) || 1\<close> replaces every falsy value. For amount and
  rate the default of a zero is zero itself.
\<close>

theorem input_defaults:
  "usdAmount (useMemo_compute usd' rate' bonus')
     = (if parseFloat usd' = NaN then Num 0 else parseFloat usd')
   \<and> ratePer10k (useMemo_compute usd' rate' bonus')
     = (if parseFloat rate' = NaN then Num 0 else parseFloat rate')
   \<and> bonusX (useMemo_compute usd' rate' bonus')
     = (if parseFloat bonus' = NaN \<or> parseFloat bonus' = Num 0 then Num 1
        else parseFloat bonus')
   \<and> parseFloat [] = NaN
   \<and> usdAmount (useMemo_compute usd' rate' bonus') \<noteq> NaN
   \<and> ratePer10k (useMemo_compute usd' rate' bonus') \<noteq> NaN
   \<and> bonusX (useMemo_compute usd' rate' bonus') \<noteq> NaN"
  by (simp add: useMemo_compute_def js_or_def truthy_def parseFloat_samples)

theorem input_defaults_witness:
  "usdAmount (useMemo_compute ''abc'' [] ''0'') = Num 0
   \<and> ratePer10k (useMemo_compute ''abc'' [] ''0'') = Num 0
   \<and> bonusX (useMemo_compute ''abc'' [] ''0'') = Num 1
   \<and> bonusX (useMemo_compute ''abc'' [] []) = Num 1
   \<and> usdAmount (useMemo_compute ''1000'' ''1.0000'' ''2.0'') = Num 1000
   \<and> ratePer10k (useMemo_compute ''1000'' ''1.0000'' ''2.0'') = Num 1
   \<and> bonusX (useMemo_compute ''1000'' ''1.0000'' ''2.0'') = Num 2"
  using input_defaults [of "''abc''" "[]" "''0''"] input_defaults [of "''abc''" "[]" "[]"]
    input_defaults [of "''1000''" "''1.0000''" "''2.0''"]
  by (simp add: parseFloat_samples)

text \<open>
  The claim as it was stated, with the bonus text \<^verbatim>\<open>0\<close> used at its parsed value, fails:
  the text reads as the number 0 and the multiplier is 1.
\<close>

theorem zero_bonus_text_not_used:
  "parseFloat ''0'' = Num 0
   \<and> bonusX (useMemo_compute ''1000'' ''1.0000'' ''0'') = Num 1
   \<and> bonusX (useMemo_compute ''1000'' ''1.0000'' ''0'') \<noteq> parseFloat ''0''"
  by (simp add: useMemo_compute_def js_or_def truthy_def parseFloat_samples)

section \<open>Copying a schedule rate into the rate field\<close>

subsection \<open>Digits\<close>

lemma is_digit_iff: "is_digit c \<longleftrightarrow> 48 \<le> (of_char c :: int) \<and> (of_char c :: int) \<le> 57"
proof -
  have eq: "c = d \<longleftrightarrow> (of_char c :: int) = of_char d" for d
    by simp
  have "is_digit c \<longleftrightarrow> (of_char c :: int) \<in> {48, 49, 50, 51, 52, 53, 54, 55, 56, 57}"
    unfolding is_digit_def by (simp add: eq del: of_char_eq_iff)
  also have "\<dots> \<longleftrightarrow> 48 \<le> (of_char c :: int) \<and> (of_char c :: int) \<le> 57"
    by simp arith
  finally show ?thesis .
qed

lemma digit_char_props:
  assumes "0 \<le> d" and "d < 10"
  shows "is_digit (digit_char d)" and "digit_val (digit_char d) = d"
  using assms by (simp_all add: is_digit_iff digit_char_def digit_val_def)

lemma digits_val_snoc: "digits_val (ds @ [c]) = 10 * digits_val ds + digit_val c"
  by (simp add: digits_val_def)

lemma digits_val_append:
  "digits_val (xs @ ys) = digits_val xs * 10 ^ length ys + digits_val ys"
proof (induction ys rule: rev_induct)
  case Nil
  show ?case by (simp add: digits_val_def)
next
  case (snoc c ys)
  have "digits_val (xs @ ys @ [c]) = 10 * digits_val (xs @ ys) + digit_val c"
    using digits_val_snoc [of "xs @ ys" c] by simp
  with snoc show ?case
    by (simp add: digits_val_snoc algebra_simps)
qed

lemma digits_val_zeros: "digits_val (replicate k CHR ''0'') = 0"
  by (induction k) (simp_all add: digits_val_def digit_val_def replicate_app_Cons_same foldl_conv_fold)

lemma dec_digits_props:
  assumes "0 \<le> n"
  shows "dec_digits n \<noteq> [] \<and> list_all is_digit (dec_digits n) \<and> digits_val (dec_digits n) = n"
  using assms
proof (induction n rule: dec_digits.induct)
  case (1 n)
  show ?case
  proof (cases "n < 10")
    case True
    with "1.prems" show ?thesis
      by (simp add: dec_digits.simps [of n] digit_char_props digits_val_def)
  next
    case False
    with "1.prems" have "0 \<le> n div 10" by simp
    with "1.IH" False have ih: "list_all is_digit (dec_digits (n div 10))"
      "digits_val (dec_digits (n div 10)) = n div 10"
      by simp_all
    have d: "0 \<le> n mod 10" "n mod 10 < 10" by simp_all
    from False ih d show ?thesis
      by (simp add: dec_digits.simps [of n] digits_val_snoc digit_char_props)
  qed
qed

subsection \<open>Reading back what toFixed prints\<close>

lemma not_digit_chars:
  "\<not> is_digit CHR ''.''" "\<not> is_digit CHR ''I''" "\<not> is_digit CHR ''-''" "\<not> is_digit CHR ''+''"
  by (simp_all add: is_digit_iff)

lemma digit_not_space: "is_digit c \<Longrightarrow> \<not> is_space c"
  by (auto simp: is_digit_iff is_space_def)

lemma scan_unsigned_decimal:
  assumes "a \<noteq> []" and "list_all is_digit a" and "list_all is_digit b"
  shows "scan_unsigned (a @ ''.'' @ b)
    = Num (of_int (digits_val a) + of_int (digits_val b) / 10 ^ length b)"
proof -
  from assms(1) obtain c a' where a: "a = c # a'"
    by (cases a) auto
  with assms(2) have c: "is_digit c" by simp
  then have "c \<noteq> CHR ''I''"
    using not_digit_chars by auto
  then have inf: "\<not> starts_with ''Infinity'' (a @ CHR ''.'' # b)"
    by (simp add: starts_with_def a)
  have tw: "takeWhile is_digit (a @ CHR ''.'' # b) = a"
    using assms(2) not_digit_chars by (simp add: takeWhile_append2 list_all_iff)
  have dw: "dropWhile is_digit (a @ CHR ''.'' # b) = CHR ''.'' # b"
    using assms(2) not_digit_chars by (simp add: dropWhile_append2 list_all_iff)
  have twb: "takeWhile is_digit b = b" and dwb: "dropWhile is_digit b = []"
    using assms(3) by (simp_all add: list_all_iff)
  show ?thesis
    using assms(1) by (simp add: scan_unsigned_def inf tw dw twb dwb scan_exponent_def Let_def)
qed

lemma parseFloat_decimal:
  assumes "a \<noteq> []" and "list_all is_digit a" and "list_all is_digit b"
  shows "parseFloat (a @ ''.'' @ b)
    = Num (of_int (digits_val a) + of_int (digits_val b) / 10 ^ length b)"
proof -
  from assms(1) obtain c a' where a: "a = c # a'"
    by (cases a) auto
  with assms(2) have c: "is_digit c" by simp
  then have sp: "\<not> is_space c" and sg: "c \<noteq> CHR ''-''" "c \<noteq> CHR ''+''"
    using not_digit_chars digit_not_space by auto
  have "parseFloat (a @ ''.'' @ b) = scan_unsigned (a @ ''.'' @ b)"
    using sp sg by (simp add: parseFloat_def a)
  with scan_unsigned_decimal [OF assms] show ?thesis by simp
qed

lemma toFixed_shape:
  assumes "0 \<le> x" and "0 < f"
  shows "\<exists>a b. toFixed f x = a @ ''.'' @ b \<and> a \<noteq> [] \<and> list_all is_digit a
    \<and> list_all is_digit b \<and> length b = f
    \<and> digits_val (a @ b) = \<lfloor>x * 10 ^ f + 1 / 2\<rfloor>"
proof -
  define n where "n = \<lfloor>x * 10 ^ f + 1 / 2\<rfloor>"
  define m where "m = dec_digits n"
  define ds where "ds = (if length m \<le> f then replicate (f + 1 - length m) CHR ''0'' @ m else m)"
  define a where "a = take (length ds - f) ds"
  define b where "b = drop (length ds - f) ds"
  from assms(1) have "0 \<le> x * 10 ^ f + 1 / 2"
    by simp
  then have n0: "0 \<le> n"
    unfolding n_def by (simp only: zero_le_floor)
  from dec_digits_props [OF n0] have m: "list_all is_digit m" "digits_val m = n"
    by (simp_all add: m_def)
  have zero: "is_digit CHR ''0''"
    by (simp add: is_digit_iff)
  have ds_digits: "list_all is_digit ds"
    using m(1) zero by (simp add: ds_def list_all_iff)
  have ds_val: "digits_val ds = n"
    using m(2) by (simp add: ds_def digits_val_append digits_val_zeros)
  have ds_len: "f < length ds"
    by (simp add: ds_def)
  have ab: "a @ b = ds"
    by (simp add: a_def b_def)
  have "toFixed f x = a @ ''.'' @ b"
    using assms by (simp add: toFixed_def Let_def a_def b_def ds_def m_def n_def)
  moreover have "a \<noteq> []"
    using ds_len by (auto simp: a_def)
  moreover have "list_all is_digit a" "list_all is_digit b"
    using ds_digits by (auto simp: a_def b_def list_all_iff dest: in_set_takeD in_set_dropD)
  moreover have "length b = f"
    using ds_len by (simp add: b_def)
  moreover have "digits_val (a @ b) = \<lfloor>x * 10 ^ f + 1 / 2\<rfloor>"
    using ds_val by (simp add: ab n_def)
  ultimately show ?thesis
    by blast
qed

lemma parseFloat_toFixed:
  assumes "0 \<le> x" and "0 < f"
  shows "parseFloat (toFixed f x) = Num (of_int \<lfloor>x * 10 ^ f + 1 / 2\<rfloor> / 10 ^ f)"
proof -
  from toFixed_shape [OF assms] obtain a b where
    s: "toFixed f x = a @ ''.'' @ b" and a: "a \<noteq> []" "list_all is_digit a"
    and b: "list_all is_digit b" "length b = f"
    and v: "digits_val (a @ b) = \<lfloor>x * 10 ^ f + 1 / 2\<rfloor>"
    by blast
  from v b(2) have "\<lfloor>x * 10 ^ f + 1 / 2\<rfloor> = digits_val a * 10 ^ f + digits_val b"
    by (simp add: digits_val_append)
  then have "(of_int \<lfloor>x * 10 ^ f + 1 / 2\<rfloor> :: rat) / 10 ^ f
      = of_int (digits_val a) + of_int (digits_val b) / 10 ^ f"
    by (simp add: add_divide_distrib)
  with parseFloat_decimal [OF a b(1)] s b(2) show ?thesis
    by simp
qed

lemma stored_rate_value:
  assumes "computeRateForDate newDate v = Some r"
  shows "js_or (parseFloat (toFixed 4 r)) (Num 0) = Num (of_int \<lfloor>r * 10 ^ 4 + 1 / 2\<rfloor> / 10 ^ 4)"
proof -
  from computeRateForDate_range [OF assms] have r: "1 \<le> r"
    by (simp add: BASE_RATE_def)
  then have "(1::rat) \<le> r * 10 ^ 4 + 1 / 2"
    by simp
  then have "1 \<le> \<lfloor>r * 10 ^ 4 + 1 / 2\<rfloor>"
    by (simp only: one_le_floor)
  then have nz: "\<lfloor>r * 10 ^ 4 + 1 / 2\<rfloor> \<noteq> 0"
    by linarith
  from r have "parseFloat (toFixed 4 r) = Num (of_int \<lfloor>r * 10 ^ 4 + 1 / 2\<rfloor> / 10 ^ 4)"
    by (intro parseFloat_toFixed) simp_all
  with nz show ?thesis
    by (simp add: js_or_def truthy_def)
qed

lemma handler_samples:
  "toFixed 4 (4913 / 4096) = ''1.1995''"
  "take 10 (toISOString 1765000000000) = ''2025-12-06''"
  "Date_parse ''2025-12-06T00:00:00Z'' = Some 1764979200000"
  "toFixed 4 (83521 / 65536) = ''1.2744''"
  "\<lfloor>3070753 / 256 :: rat\<rfloor> = 11995"
  "\<lfloor>52202673 / 4096 :: rat\<rfloor> = 12744"
  by code_simp+

subsection \<open>The handlers\<close>

text \<open>
  Claim C10. When a date chosen in the date picker (\<^const>\<open>handleDateChange\<close>) or
  today's date (\<^const>\<open>handleUseToday\<close>) has a schedule rate \<open>r\<close>, the rate field
  receives the text \<open>toFixed 4 r\<close>, and the rate that the points derivation then reads
  from the field is \<open>r\<close> rounded to four decimal places, half up, which is within half a
  unit of the fourth place of \<open>r\<close> and need not be \<open>r\<close>.
\<close>

theorem selected_rate_is_rounded:
  "(computeRateForDate newDate v = Some r \<longrightarrow>
      rate (handleDateChange newDate v st) = toFixed 4 r
    \<and> ratePer10k (page_calculation (handleDateChange newDate v st))
        = Num (of_int \<lfloor>r * 10 ^ 4 + 1 / 2\<rfloor> / 10 ^ 4))
   \<and> (computeRateForDate newDate (take 10 (toISOString today)) = Some r \<longrightarrow>
      rate (handleUseToday newDate today st) = toFixed 4 r
    \<and> ratePer10k (page_calculation (handleUseToday newDate today st))
        = Num (of_int \<lfloor>r * 10 ^ 4 + 1 / 2\<rfloor> / 10 ^ 4))
   \<and> \<bar>of_int \<lfloor>r * 10 ^ 4 + 1 / 2\<rfloor> / 10 ^ 4 - r\<bar> \<le> 1 / 20000"
proof (intro conjI impI)
  assume c: "computeRateForDate newDate v = Some r"
  then show "rate (handleDateChange newDate v st) = toFixed 4 r"
    by (simp add: handleDateChange_def)
  from c stored_rate_value [OF c]
  show "ratePer10k (page_calculation (handleDateChange newDate v st))
      = Num (of_int \<lfloor>r * 10 ^ 4 + 1 / 2\<rfloor> / 10 ^ 4)"
    by (simp add: handleDateChange_def page_calculation_def useMemo_compute_def)
next
  assume c: "computeRateForDate newDate (take 10 (toISOString today)) = Some r"
  then show "rate (handleUseToday newDate today st) = toFixed 4 r"
    by (simp add: handleUseToday_def Let_def)
  from c stored_rate_value [OF c]
  show "ratePer10k (page_calculation (handleUseToday newDate today st))
      = Num (of_int \<lfloor>r * 10 ^ 4 + 1 / 2\<rfloor> / 10 ^ 4)"
    by (simp add: handleUseToday_def Let_def page_calculation_def useMemo_compute_def)
next
  define q where "q = r * 10000 + 1 / 2"
  define k :: rat where "k = of_int \<lfloor>q\<rfloor>"
  have "k \<le> q" and "q < k + 1"
    unfolding k_def by linarith+
  then have "\<bar>k / 10000 - r\<bar> \<le> 1 / 20000"
    unfolding q_def by linarith
  then show "\<bar>of_int \<lfloor>r * 10 ^ 4 + 1 / 2\<rfloor> / 10 ^ 4 - r\<bar> \<le> 1 / 20000"
    by (simp add: k_def q_def)
qed

theorem selected_rate_is_rounded_witness:
  "computeRateForDate Date_parse ''2025-12-05'' = Some ((17 / 16) ^ 3)
   \<and> rate (handleDateChange Date_parse ''2025-12-05'' initial_state) = ''1.1995''
   \<and> ratePer10k (page_calculation (handleDateChange Date_parse ''2025-12-05'' initial_state))
       = Num (11995 / 10000)
   \<and> (17 / 16) ^ 3 \<noteq> (11995 / 10000 :: rat)
   \<and> computeRateForDate Date_parse (take 10 (toISOString 1765000000000)) = Some ((17 / 16) ^ 4)
   \<and> rate (handleUseToday Date_parse 1765000000000 initial_state) = ''1.2744''
   \<and> ratePer10k (page_calculation (handleUseToday Date_parse 1765000000000 initial_state))
       = Num (12744 / 10000)"
proof -
  have d5: "computeRateForDate Date_parse ''2025-12-05'' = Some ((17 / 16) ^ 3)"
    using computeRateForDate_Some [of "''2025-12-05''" Date_parse 1764892800000]
    by (simp add: Date_parse_samples BASE_END_DATE_def END_DATE_def msPerDay_def MAX_RATE_def
        power_divide)
  have d6: "computeRateForDate Date_parse (take 10 (toISOString 1765000000000))
      = Some ((17 / 16) ^ 4)"
    using computeRateForDate_Some [of "''2025-12-06''" Date_parse 1764979200000]
    by (simp add: handler_samples BASE_END_DATE_def END_DATE_def msPerDay_def MAX_RATE_def
        power_divide)
  show ?thesis
    using selected_rate_is_rounded [of Date_parse "''2025-12-05''" "(17 / 16) ^ 3" initial_state
        1765000000000]
      selected_rate_is_rounded [of Date_parse "''2025-12-05''" "(17 / 16) ^ 4" initial_state
        1765000000000]
      d5 d6
    by (simp add: handler_samples power_divide)
qed

end
